theory Spec2Isabelle
  imports Complex_Main "HOL-Library.Word" "HOL-Library.Log_Nat"
begin

section \<open>Depth-frame image pipeline (app/processing/image.py)\<close>

text \<open>
  The module turns one row of measurements into a colourised one-pixel-tall PNG:
  clamp to 8 bits, check the row length, resize the row with Pillow, look every intensity
  up in a 256 x 3 table built once from five colour stops, encode as PNG.

  Python values are modelled as follows. A Python \<open>int\<close> is an \<^typ>\<open>int\<close>, an
  \<open>np.uint8\<close> is an \<^typ>\<open>8 word\<close>, a raised exception is the \<open>Inl\<close> side of a sum.
  A finite \<open>float64\<close> is the real number it denotes; the operations whose result
  is rounded (\<open>*\<close>, \<open>/\<close>, \<open>+\<close> inside \<open>np.linspace\<close>) round explicitly with \<open>fl\<close>.
  The calls to \<open>logger.debug\<close> have no effect on any result and are left out.
\<close>

type_synonym u8 = "8 word"

datatype error = ValueError string | IndexError string

subsection \<open>IEEE binary64 rounding\<close>

text \<open>
  \<open>fl x\<close> is the double nearest to the real number \<open>x\<close>, ties to the even significand
  (53 significant bits). Overflow and subnormal numbers are not modelled: every value the
  module computes in floating point is zero or has a magnitude between \<open>2^-7\<close> and
  \<open>2^9\<close>.
\<close>

definition pow2 :: "int \<Rightarrow> real" where
  "pow2 e = (if 0 \<le> e then 2 ^ nat e else 1 / 2 ^ nat (- e))"

definition ilog2 :: "real \<Rightarrow> int" where
  \<comment> \<open>the exponent \<open>e\<close> with \<open>2^e \<le> |x| < 2^(e+1)\<close>, for \<open>x \<noteq> 0\<close>\<close>
  "ilog2 x = (if 1 \<le> \<bar>x\<bar> then bitlen \<lfloor>\<bar>x\<bar>\<rfloor> - 1 else - bitlen (\<lceil>1 / \<bar>x\<bar>\<rceil> - 1))"

definition round_even :: "real \<Rightarrow> int" where
  "round_even q =
     (let m = \<lfloor>q\<rfloor>; f = q - of_int m
      in if f < 1 / 2 then m else if 1 / 2 < f then m + 1 else if even m then m else m + 1)"

definition fl :: "real \<Rightarrow> real" where
  "fl x = (if x = 0 then 0
           else let u = pow2 (ilog2 x - 52) in of_int (round_even (x / u)) * u)"

subsection \<open>The colour stops and \<open>np.linspace\<close>\<close>

type_synonym color = "int \<times> int \<times> int"

definition COLOR_STOPS :: "(int \<times> color) list" where
  "COLOR_STOPS =
     [(0, (0, 0, 128)),
      (64, (0, 128, 255)),
      (128, (0, 255, 128)),
      (192, (255, 255, 0)),
      (255, (255, 0, 0))]"

fun channel_of :: "color \<Rightarrow> nat \<Rightarrow> int" where
  \<comment> \<open>\<open>color[channel]\<close> for \<open>channel\<close> in \<open>range(3)\<close>\<close>
  "channel_of (r, g, b) c = (if c = 0 then r else if c = 1 then g else b)"

text \<open>
  \<open>np.linspace(start, stop, num, dtype=np.uint8)\<close> with the default \<open>endpoint=True\<close>:
  \<open>div = num - 1\<close>, \<open>step = (stop - start) / div\<close>, the samples are
  \<open>arange(num) * step + start\<close> in float64 (when \<open>step\<close> is zero NumPy divides by \<open>div\<close>
  first and multiplies by the difference after), the last sample is overwritten with
  \<open>stop\<close>, and for an integer dtype the samples are floored and cast. A negative \<open>num\<close>
  raises. The cast of a floored value outside \<open>[0, 255]\<close> is written as the wrap-around
  \<open>word_of_int\<close>; no such value arises from stops whose channels are bytes.
\<close>

definition linspace_float :: "int \<Rightarrow> int \<Rightarrow> int \<Rightarrow> real list" where
  "linspace_float start stop num =
     (let dv = num - 1;
          delta = fl (fl (of_int stop) - fl (of_int start));
          step = fl (delta / of_int dv);
          y = map (\<lambda>i. let yi = (if 0 < dv
                                    then (if step = 0 then fl (fl (of_nat i / of_int dv) * delta)
                                          else fl (of_nat i * step))
                                    else fl (of_nat i * delta))
                          in fl (yi + fl (of_int start)))
                  [0 ..< nat num]
      in if 1 < num then y[nat num - 1 := fl (of_int stop)] else y)"

definition linspace_uint8 :: "int \<Rightarrow> int \<Rightarrow> int \<Rightarrow> error + u8 list" where
  "linspace_uint8 start stop num =
     (if num < 0 then Inl (ValueError ''Number of samples must be non-negative.'')
      else Inr (map (\<lambda>v. word_of_int \<lfloor>v\<rfloor>) (linspace_float start stop num)))"

subsection \<open>Building the lookup table\<close>

type_synonym lut = "u8 list list"

definition slice_index :: "int \<Rightarrow> int \<Rightarrow> int" where
  \<comment> \<open>how Python resolves one bound of \<open>a[start:stop]\<close> on an axis of length \<open>n\<close>\<close>
  "slice_index n i = (let j = (if i < 0 then i + n else i) in max 0 (min n j))"

definition set_column_slice :: "lut \<Rightarrow> int \<Rightarrow> int \<Rightarrow> nat \<Rightarrow> u8 list \<Rightarrow> error + lut" where
  \<comment> \<open>\<open>lut[start:stop, channel] = vals\<close>: the shapes must agree, or \<open>vals\<close> has one element\<close>
  "set_column_slice t start stop c vals =
     (let a = nat (slice_index (int (length t)) start);
          b = nat (slice_index (int (length t)) stop);
          len = b - a
      in if length vals = len
         then Inr (fold (\<lambda>j t'. t'[a + j := (t' ! (a + j))[c := vals ! j]]) [0 ..< len] t)
         else if length vals = 1
         then Inr (fold (\<lambda>j t'. t'[a + j := (t' ! (a + j))[c := vals ! 0]]) [0 ..< len] t)
         else Inl (ValueError ''could not broadcast input array''))"

fun fill_channels :: "lut \<Rightarrow> int \<times> color \<Rightarrow> int \<times> color \<Rightarrow> nat list \<Rightarrow> error + lut" where
  \<comment> \<open>the inner loop \<open>for channel in range(3)\<close> of one pair of stops\<close>
  "fill_channels t lo hi [] = Inr t"
| "fill_channels t (start_idx, start_color) (end_idx, end_color) (channel # cs) =
     (let num_steps = end_idx - start_idx
      in case linspace_uint8 (channel_of start_color channel) (channel_of end_color channel)
                (num_steps + 1) of
           Inl e \<Rightarrow> Inl e
         | Inr vals \<Rightarrow>
             (case set_column_slice t start_idx (end_idx + 1) channel vals of
                Inl e \<Rightarrow> Inl e
              | Inr t' \<Rightarrow> fill_channels t' (start_idx, start_color) (end_idx, end_color) cs))"

fun fill_segments :: "lut \<Rightarrow> (int \<times> color) list \<Rightarrow> error + lut" where
  \<comment> \<open>the outer loop \<open>for i in range(len(COLOR_STOPS) - 1)\<close> over consecutive stops\<close>
  "fill_segments t (lo # hi # rest) =
     (case fill_channels t lo hi [0 ..< 3] of
        Inl e \<Rightarrow> Inl e
      | Inr t' \<Rightarrow> fill_segments t' (hi # rest))"
| "fill_segments t stops = Inr t"

definition generate_colormap_lut :: "error + lut" where
  "generate_colormap_lut = fill_segments (replicate 256 (replicate 3 0)) COLOR_STOPS"

definition COLORMAP_LUT :: lut where
  \<comment> \<open>computed when the module is loaded; a failure would abort the import\<close>
  "COLORMAP_LUT = (case generate_colormap_lut of Inr t \<Rightarrow> t | Inl e \<Rightarrow> [])"

subsection \<open>Samples, arrays and the platform\<close>

text \<open>
  A raw sample is a \<open>float64\<close>: a finite value, an infinity or a NaN. An \<open>ndarray\<close> of
  bytes is its shape and its elements in row-major order.

  Three things the module takes from its platform are parameters of the model: the byte
  a float-to-\<open>uint8\<close> conversion gives when the truncated value is not representable
  (C leaves it undefined; NumPy warns), the integer filter taps Pillow computes in
  floating point for a LANCZOS resize, and Pillow's PNG writer.
\<close>

datatype float64 = Finite real | PosInf | NegInf | NaN

record ndarray =
  shape :: "nat list"
  data :: "u8 list"

record platform =
  cast_invalid :: "float64 \<Rightarrow> u8"
  lanczos_taps :: "nat \<Rightarrow> nat \<Rightarrow> nat \<Rightarrow> nat \<times> int list"
  png_save :: "ndarray \<Rightarrow> error + u8 list"

fun np_clip :: "real \<Rightarrow> real \<Rightarrow> float64 \<Rightarrow> float64" where
  \<comment> \<open>\<open>np.clip(x, lo, hi)\<close> is \<open>minimum(maximum(x, lo), hi)\<close>; a NaN stays a NaN\<close>
  "np_clip lo hi (Finite x) = Finite (min (max x lo) hi)"
| "np_clip lo hi PosInf = Finite hi"
| "np_clip lo hi NegInf = Finite lo"
| "np_clip lo hi NaN = NaN"

definition trunc :: "real \<Rightarrow> int" where
  \<comment> \<open>rounding towards zero, as a C conversion to an integer type does\<close>
  "trunc x = (if 0 \<le> x then \<lfloor>x\<rfloor> else \<lceil>x\<rceil>)"

fun astype_uint8 :: "platform \<Rightarrow> float64 \<Rightarrow> u8" where
  "astype_uint8 P (Finite x) =
     (if - 1 < x \<and> x < 256 then word_of_int (trunc x) else cast_invalid P (Finite x))"
| "astype_uint8 P v = cast_invalid P v"

definition clip_to_uint8 :: "platform \<Rightarrow> float64 list \<Rightarrow> u8 list" where
  \<comment> \<open>\<open>np.clip(np.array(row_data, dtype=np.float64), 0, 255).astype(np.uint8)\<close>\<close>
  "clip_to_uint8 P row_data = map (astype_uint8 P) (map (np_clip 0 255) row_data)"

subsection \<open>Colour mapping\<close>

definition apply_colormap :: "ndarray \<Rightarrow> error + ndarray" where
  \<comment> \<open>\<open>COLORMAP_LUT[grayscale]\<close>: one table row per element, \<open>IndexError\<close> out of bounds\<close>
  "apply_colormap grayscale =
     (if list_all (\<lambda>g. unat g < length COLORMAP_LUT) (data grayscale)
      then Inr \<lparr>shape = shape grayscale @ [3],
                data = concat (map (\<lambda>g. COLORMAP_LUT ! unat g) (data grayscale))\<rparr>
      else Inl (IndexError ''index is out of bounds for axis 0''))"

subsection \<open>Resizing one row with Pillow\<close>

text \<open>
  \<open>Image.fromarray(row.reshape(1, -1), mode='L')\<close> is an image one pixel tall and as
  wide as the row. \<open>Image.resize((target_width, 1), LANCZOS)\<close> returns a copy when the
  size is unchanged, raises \<open>ValueError\<close> when the requested width is below 1, and otherwise
  runs the horizontal pass of Pillow's 8-bit resampler: output pixel \<open>xx\<close> is the rounded,
  clipped sum of the input pixels of its window, weighted by integers scaled by \<open>2^22\<close>.
  The window never leaves the row in Pillow; \<open>zip\<close> stops at the end of the row.
\<close>

definition clip8 :: "int \<Rightarrow> u8" where
  "clip8 v = word_of_int (max 0 (min 255 (v div 2 ^ 22)))"

definition ImagingResampleHorizontal_8bpc :: "(nat \<Rightarrow> nat \<times> int list) \<Rightarrow> u8 list \<Rightarrow> nat \<Rightarrow> u8 list" where
  "ImagingResampleHorizontal_8bpc taps line outsize =
     map (\<lambda>xx. case taps xx of
                   (xmin, k) \<Rightarrow>
                     clip8 (2 ^ 21 + sum_list (map (\<lambda>(px, w). uint px * w) (zip (drop xmin line) k))))
         [0 ..< outsize]"

definition resize_grayscale_row :: "platform \<Rightarrow> u8 list \<Rightarrow> int \<Rightarrow> error + u8 list" where
  "resize_grayscale_row P row target_width =
     (if (int (length row), 1) = (target_width, 1::int) then Inr row
      else if target_width < 1 then Inl (ValueError ''height and width must be > 0'')
      else Inr (ImagingResampleHorizontal_8bpc
                  (lanczos_taps P (length row) (nat target_width)) row (nat target_width)))"

subsection \<open>Encoding and the row pipeline\<close>

definition encode_to_png :: "platform \<Rightarrow> ndarray \<Rightarrow> error + u8 list" where
  \<comment> \<open>\<open>Image.fromarray(rgb_array, mode='RGB')\<close> saved as PNG with \<open>optimize=True\<close>\<close>
  "encode_to_png P rgb_array = png_save P rgb_array"

definition digit_char :: "nat \<Rightarrow> char" where
  "digit_char d = ''0123456789'' ! d"

function str_nat :: "nat \<Rightarrow> string" where
  "str_nat n = (if n < 10 then [digit_char n] else str_nat (n div 10) @ [digit_char (n mod 10)])"
  by pat_completeness auto
termination
  by (relation "measure id") auto

definition str_int :: "int \<Rightarrow> string" where
  \<comment> \<open>how an f-string renders an \<open>int\<close>\<close>
  "str_int i = (if i < 0 then CHR ''-'' # str_nat (nat (- i)) else str_nat (nat i))"

definition process_row_to_png ::
  "platform \<Rightarrow> float64 list \<Rightarrow> int \<Rightarrow> int \<Rightarrow> error + (u8 list \<times> int \<times> int)" where
  "process_row_to_png P row_data source_width target_width =
     (let grayscale = clip_to_uint8 P row_data
      in if int (length grayscale) \<noteq> source_width
         then Inl (ValueError (''Expected '' @ str_int source_width @ '' pixel values, got ''
                                @ str_int (int (length grayscale))))
         else case resize_grayscale_row P grayscale target_width of
                Inl e \<Rightarrow> Inl e
              | Inr resized_gray \<Rightarrow>
                  (case apply_colormap \<lparr>shape = [1, length resized_gray], data = resized_gray\<rparr> of
                     Inl e \<Rightarrow> Inl e
                   | Inr rgb \<Rightarrow>
                       (case encode_to_png P rgb of
                          Inl e \<Rightarrow> Inl e
                        | Inr png_bytes \<Rightarrow> Inr (png_bytes, target_width, 1))))"

subsection \<open>Definitions used to state the properties\<close>

definition linear_interpolation :: "int \<Rightarrow> int \<Rightarrow> int \<Rightarrow> int \<Rightarrow> int \<Rightarrow> real" where
  \<comment> \<open>the point at position \<open>p\<close> on the straight line from \<open>(lo, a)\<close> to \<open>(hi, b)\<close>\<close>
  "linear_interpolation lo a hi b p =
     of_int a + of_int (p - lo) * of_int (b - a) / of_int (hi - lo)"

definition taps_normalised :: "platform \<Rightarrow> nat \<Rightarrow> nat \<Rightarrow> bool" where
  \<comment> \<open>every window stays inside the row and its weights add up to \<open>2^22\<close> within \<open>2^14\<close>\<close>
  "taps_normalised P insize outsize =
     (\<forall>xx < outsize. case lanczos_taps P insize outsize xx of
                        (xmin, k) \<Rightarrow> xmin + length k \<le> insize
                                     \<and> \<bar>sum_list k - 2 ^ 22\<bar> < 2 ^ 14)"

definition nearest_platform :: platform where
  \<comment> \<open>an instance to run the model on: invalid casts give 0, every output pixel takes the
      nearest input pixel with full weight, the writer returns the raw bytes\<close>
  "nearest_platform =
     \<lparr>cast_invalid = (\<lambda>v. 0),
      lanczos_taps = (\<lambda>insize outsize xx. (xx * insize div outsize, [2 ^ 22])),
      png_save = (\<lambda>a. Inr (data a))\<rparr>"

section \<open>Evaluating the lookup table\<close>

subsection \<open>The ten distinct calls of \<open>np.linspace\<close>\<close>

lemmas fl_eval = fl_def ilog2_def pow2_def round_even_def Let_def compute_bitlen
lemma upt_0_numeral: "[0..<numeral n] = [0..<pred_numeral n] @ [pred_numeral n]"
  by (simp add: numeral_eq_Suc)

lemma linspace_0_0_65: "linspace_uint8 0 0 65 = Inr [0, 0, 0, 0, 0, 0, 0, 0, 0, 0, 0, 0, 0, 0,
     0, 0, 0, 0, 0, 0, 0, 0, 0, 0, 0, 0, 0, 0, 0, 0, 0, 0, 0, 0, 0, 0, 0, 0, 0, 0, 0, 0, 0, 0,
     0, 0, 0, 0, 0, 0, 0, 0, 0, 0, 0, 0, 0, 0, 0, 0, 0, 0, 0, 0, 0]"
  by (simp add: linspace_uint8_def linspace_float_def Let_def upt_0_numeral del: upt_rec_numeral)
    (simp add: fl_eval)?
lemma linspace_0_128_65: "linspace_uint8 0 128 65 = Inr [0, 2, 4, 6, 8, 10, 12, 14, 16, 18, 20,
     22, 24, 26, 28, 30, 32, 34, 36, 38, 40, 42, 44, 46, 48, 50, 52, 54, 56, 58, 60, 62, 64, 66,
     68, 70, 72, 74, 76, 78, 80, 82, 84, 86, 88, 90, 92, 94, 96, 98, 100, 102, 104, 106, 108,
     110, 112, 114, 116, 118, 120, 122, 124, 126, 128]"
  by (simp add: linspace_uint8_def linspace_float_def Let_def upt_0_numeral del: upt_rec_numeral)
    (simp add: fl_eval)?
lemma linspace_128_255_65: "linspace_uint8 128 255 65 = Inr [128, 129, 131, 133, 135, 137, 139,
     141, 143, 145, 147, 149, 151, 153, 155, 157, 159, 161, 163, 165, 167, 169, 171, 173, 175,
     177, 179, 181, 183, 185, 187, 189, 191, 193, 195, 197, 199, 201, 203, 205, 207, 209, 211,
     213, 215, 217, 219, 221, 223, 225, 227, 229, 231, 233, 235, 237, 239, 241, 243, 245, 247,
     249, 251, 253, 255]"
  by (simp add: linspace_uint8_def linspace_float_def Let_def upt_0_numeral del: upt_rec_numeral)
    (simp add: fl_eval)?
lemma linspace_255_128_65: "linspace_uint8 255 128 65 = Inr [255, 253, 251, 249, 247, 245, 243,
     241, 239, 237, 235, 233, 231, 229, 227, 225, 223, 221, 219, 217, 215, 213, 211, 209, 207,
     205, 203, 201, 199, 197, 195, 193, 191, 189, 187, 185, 183, 181, 179, 177, 175, 173, 171,
     169, 167, 165, 163, 161, 159, 157, 155, 153, 151, 149, 147, 145, 143, 141, 139, 137, 135,
     133, 131, 129, 128]"
  by (simp add: linspace_uint8_def linspace_float_def Let_def upt_0_numeral del: upt_rec_numeral)
    (simp add: fl_eval)?
lemma linspace_0_255_65: "linspace_uint8 0 255 65 = Inr [0, 3, 7, 11, 15, 19, 23, 27, 31, 35,
     39, 43, 47, 51, 55, 59, 63, 67, 71, 75, 79, 83, 87, 91, 95, 99, 103, 107, 111, 115, 119,
     123, 127, 131, 135, 139, 143, 147, 151, 155, 159, 163, 167, 171, 175, 179, 183, 187, 191,
     195, 199, 203, 207, 211, 215, 219, 223, 227, 231, 235, 239, 243, 247, 251, 255]"
  by (simp add: linspace_uint8_def linspace_float_def Let_def upt_0_numeral del: upt_rec_numeral)
    (simp add: fl_eval)?
lemma linspace_255_255_65: "linspace_uint8 255 255 65 = Inr [255, 255, 255, 255, 255, 255, 255,
     255, 255, 255, 255, 255, 255, 255, 255, 255, 255, 255, 255, 255, 255, 255, 255, 255, 255,
     255, 255, 255, 255, 255, 255, 255, 255, 255, 255, 255, 255, 255, 255, 255, 255, 255, 255,
     255, 255, 255, 255, 255, 255, 255, 255, 255, 255, 255, 255, 255, 255, 255, 255, 255, 255,
     255, 255, 255, 255]"
  by (simp add: linspace_uint8_def linspace_float_def Let_def upt_0_numeral del: upt_rec_numeral)
    (simp add: fl_eval)?
lemma linspace_128_0_65: "linspace_uint8 128 0 65 = Inr [128, 126, 124, 122, 120, 118, 116, 114,
     112, 110, 108, 106, 104, 102, 100, 98, 96, 94, 92, 90, 88, 86, 84, 82, 80, 78, 76, 74, 72,
     70, 68, 66, 64, 62, 60, 58, 56, 54, 52, 50, 48, 46, 44, 42, 40, 38, 36, 34, 32, 30, 28, 26,
     24, 22, 20, 18, 16, 14, 12, 10, 8, 6, 4, 2, 0]"
  by (simp add: linspace_uint8_def linspace_float_def Let_def upt_0_numeral del: upt_rec_numeral)
    (simp add: fl_eval)?
lemma linspace_255_255_64: "linspace_uint8 255 255 64 = Inr [255, 255, 255, 255, 255, 255, 255,
     255, 255, 255, 255, 255, 255, 255, 255, 255, 255, 255, 255, 255, 255, 255, 255, 255, 255,
     255, 255, 255, 255, 255, 255, 255, 255, 255, 255, 255, 255, 255, 255, 255, 255, 255, 255,
     255, 255, 255, 255, 255, 255, 255, 255, 255, 255, 255, 255, 255, 255, 255, 255, 255, 255,
     255, 255, 255]"
  by (simp add: linspace_uint8_def linspace_float_def Let_def upt_0_numeral del: upt_rec_numeral)
    (simp add: fl_eval)?
lemma linspace_255_0_64: "linspace_uint8 255 0 64 = Inr [255, 250, 246, 242, 238, 234, 230, 226,
     222, 218, 214, 210, 206, 202, 198, 194, 190, 186, 182, 178, 174, 170, 165, 161, 157, 153,
     149, 145, 141, 137, 133, 129, 125, 121, 117, 113, 109, 105, 101, 97, 93, 89, 85, 80, 76,
     72, 68, 64, 60, 56, 52, 48, 44, 40, 36, 32, 28, 24, 20, 16, 12, 8, 4, 0]"
  by (simp add: linspace_uint8_def linspace_float_def Let_def upt_0_numeral del: upt_rec_numeral)
    (simp add: fl_eval)?
lemma linspace_0_0_64: "linspace_uint8 0 0 64 = Inr [0, 0, 0, 0, 0, 0, 0, 0, 0, 0, 0, 0, 0, 0,
     0, 0, 0, 0, 0, 0, 0, 0, 0, 0, 0, 0, 0, 0, 0, 0, 0, 0, 0, 0, 0, 0, 0, 0, 0, 0, 0, 0, 0, 0,
     0, 0, 0, 0, 0, 0, 0, 0, 0, 0, 0, 0, 0, 0, 0, 0, 0, 0, 0, 0]"
  by (simp add: linspace_uint8_def linspace_float_def Let_def upt_0_numeral del: upt_rec_numeral)
    (simp add: fl_eval)?

lemmas linspace_evals =
  linspace_0_0_65 linspace_0_128_65 linspace_128_255_65 linspace_255_128_65 linspace_0_255_65
  linspace_255_255_65 linspace_128_0_65 linspace_255_255_64 linspace_255_0_64 linspace_0_0_64

subsection \<open>A slice assignment as take, zip and drop\<close>

lemma fold_update_length:
  "length (fold (\<lambda>j t'. t'[a + j := g j (t' ! (a + j))]) [0 ..< n] t) = length t"
  by (induction n) simp_all

lemma fold_update_nth:
  "p < length t \<Longrightarrow>
   fold (\<lambda>j t'. t'[a + j := g j (t' ! (a + j))]) [0 ..< n] t ! p =
     (if a \<le> p \<and> p < a + n then g (p - a) (t ! p) else t ! p)"
proof (induction n)
  case 0
  then show ?case by auto
next
  case (Suc n)
  let ?t = "fold (\<lambda>j t'. t'[a + j := g j (t' ! (a + j))]) [0 ..< n] t"
  have len: "length ?t = length t" by (rule fold_update_length)
  show ?case
  proof (cases "p = a + n")
    case True
    with Suc len show ?thesis by auto
  next
    case False
    with Suc len show ?thesis by (auto simp: nth_list_update)
  qed
qed

lemma slice_nth:
  assumes "a \<le> b" "b \<le> length t" "length vals = b - a" "p < length t"
  shows "(take a t @ map (\<lambda>(row, v). row[c := v]) (zip (take (b - a) (drop a t)) vals) @ drop b t) ! p
         = (if a \<le> p \<and> p < a + (b - a) then (t ! p)[c := vals ! (p - a)] else t ! p)"
proof -
  let ?m = "map (\<lambda>(row, v). row[c := v]) (zip (take (b - a) (drop a t)) vals)"
  have la: "length (take a t) = a" using assms by simp
  have le: "b - a \<le> length t - a" using assms by (simp add: diff_le_mono)
  have lz: "length (take (b - a) (drop a t)) = b - a" using le by simp
  have lm: "length ?m = b - a" using lz assms by simp
  consider "p < a" | "a \<le> p" "p < b" | "b \<le> p" by linarith
  then show ?thesis
  proof cases
    case 1
    then have "(take a t @ ?m @ drop b t) ! p = take a t ! p"
      using la by (simp add: nth_append)
    with 1 show ?thesis by simp
  next
    case 2
    then have "(take a t @ ?m @ drop b t) ! p = (?m @ drop b t) ! (p - a)"
      using la by (simp add: nth_append)
    also have "\<dots> = ?m ! (p - a)"
    proof -
      have "p - a < length ?m" using 2 lm by linarith
      then show ?thesis by (simp only: nth_append if_True)
    qed
    also have "\<dots> = (t ! p)[c := vals ! (p - a)]"
    proof -
      have pa: "p - a < b - a" using 2 by linarith
      have "a + (p - a) = p" using 2 by simp
      then show ?thesis using pa lz assms by simp
    qed
    finally show ?thesis using 2 by simp
  next
    case 3
    then have "(take a t @ ?m @ drop b t) ! p = (?m @ drop b t) ! (p - a)"
      using la assms by (simp add: nth_append)
    also have "\<dots> = drop b t ! (p - a - (b - a))"
    proof -
      have "\<not> p - a < length ?m" using 3 lm assms by linarith
      then show ?thesis using lm by (simp only: nth_append if_False)
    qed
    also have "\<dots> = t ! p"
    proof -
      have "b + (p - a - (b - a)) = p" using 3 assms by linarith
      then show ?thesis using 3 assms by simp
    qed
    finally show ?thesis using 3 assms by simp
  qed
qed

lemma set_column_slice_eq:
  assumes "0 \<le> start" "start \<le> stop" "stop \<le> int (length t)"
    and "length vals = nat stop - nat start"
  shows "set_column_slice t start stop c vals =
    Inr (take (nat start) t
         @ map (\<lambda>(row, v). row[c := v]) (zip (take (nat stop - nat start) (drop (nat start) t)) vals)
         @ drop (nat stop) t)"
proof -
  let ?a = "nat start" and ?b = "nat stop"
  let ?g = "\<lambda>j r. r[c := vals ! j]"
  let ?f = "fold (\<lambda>j t'. t'[?a + j := ?g j (t' ! (?a + j))]) [0 ..< ?b - ?a] t"
  let ?r = "take ?a t @ map (\<lambda>(row, v). row[c := v]) (zip (take (?b - ?a) (drop ?a t)) vals) @ drop ?b t"
  from assms have ab: "?a \<le> ?b" "?b \<le> length t" by linarith+
  have si: "nat (slice_index (int (length t)) start) = ?a"
           "nat (slice_index (int (length t)) stop) = ?b"
    using assms by (simp_all add: slice_index_def Let_def)
  have le: "?b - ?a \<le> length t - ?a" using ab by (simp add: diff_le_mono)
  have lr: "length ?r = length t" using ab assms(4) le by simp
  have lf: "length ?f = length t"
    using fold_update_length [of ?a ?g "?b - ?a" t] by simp
  have "?f = ?r"
  proof (rule nth_equalityI)
    show "length ?f = length ?r" using lr lf by simp
  next
    fix p assume "p < length ?f"
    then have p: "p < length t" using lf by simp
    have "?f ! p = (if ?a \<le> p \<and> p < ?a + (?b - ?a) then ?g (p - ?a) (t ! p) else t ! p)"
      using fold_update_nth [OF p, of ?a ?g "?b - ?a"] by simp
    also have "\<dots> = ?r ! p"
      using slice_nth [OF ab assms(4) p, of c] by simp
    finally show "?f ! p = ?r ! p" .
  qed
  then show ?thesis
    unfolding set_column_slice_def Let_def si using assms(4) by simp
qed

subsection \<open>The table\<close>

lemma replicate_Cons_numeral: "replicate (numeral k) x = x # replicate (pred_numeral k) x"
  by (simp add: numeral_eq_Suc)

lemma COLORMAP_LUT_rows: "COLORMAP_LUT =
   [[0, 0, 128], [0, 2, 129], [0, 4, 131], [0, 6, 133], [0, 8, 135], [0, 10, 137],
    [0, 12, 139], [0, 14, 141], [0, 16, 143], [0, 18, 145], [0, 20, 147], [0, 22, 149],
    [0, 24, 151], [0, 26, 153], [0, 28, 155], [0, 30, 157], [0, 32, 159], [0, 34, 161],
    [0, 36, 163], [0, 38, 165], [0, 40, 167], [0, 42, 169], [0, 44, 171], [0, 46, 173],
    [0, 48, 175], [0, 50, 177], [0, 52, 179], [0, 54, 181], [0, 56, 183], [0, 58, 185],
    [0, 60, 187], [0, 62, 189], [0, 64, 191], [0, 66, 193], [0, 68, 195], [0, 70, 197],
    [0, 72, 199], [0, 74, 201], [0, 76, 203], [0, 78, 205], [0, 80, 207], [0, 82, 209],
    [0, 84, 211], [0, 86, 213], [0, 88, 215], [0, 90, 217], [0, 92, 219], [0, 94, 221],
    [0, 96, 223], [0, 98, 225], [0, 100, 227], [0, 102, 229], [0, 104, 231], [0, 106, 233],
    [0, 108, 235], [0, 110, 237], [0, 112, 239], [0, 114, 241], [0, 116, 243], [0, 118, 245],
    [0, 120, 247], [0, 122, 249], [0, 124, 251], [0, 126, 253], [0, 128, 255], [0, 129, 253],
    [0, 131, 251], [0, 133, 249], [0, 135, 247], [0, 137, 245], [0, 139, 243], [0, 141, 241],
    [0, 143, 239], [0, 145, 237], [0, 147, 235], [0, 149, 233], [0, 151, 231], [0, 153, 229],
    [0, 155, 227], [0, 157, 225], [0, 159, 223], [0, 161, 221], [0, 163, 219], [0, 165, 217],
    [0, 167, 215], [0, 169, 213], [0, 171, 211], [0, 173, 209], [0, 175, 207], [0, 177, 205],
    [0, 179, 203], [0, 181, 201], [0, 183, 199], [0, 185, 197], [0, 187, 195], [0, 189, 193],
    [0, 191, 191], [0, 193, 189], [0, 195, 187], [0, 197, 185], [0, 199, 183], [0, 201, 181],
    [0, 203, 179], [0, 205, 177], [0, 207, 175], [0, 209, 173], [0, 211, 171], [0, 213, 169],
    [0, 215, 167], [0, 217, 165], [0, 219, 163], [0, 221, 161], [0, 223, 159], [0, 225, 157],
    [0, 227, 155], [0, 229, 153], [0, 231, 151], [0, 233, 149], [0, 235, 147], [0, 237, 145],
    [0, 239, 143], [0, 241, 141], [0, 243, 139], [0, 245, 137], [0, 247, 135], [0, 249, 133],
    [0, 251, 131], [0, 253, 129], [0, 255, 128], [3, 255, 126], [7, 255, 124], [11, 255, 122],
    [15, 255, 120], [19, 255, 118], [23, 255, 116], [27, 255, 114], [31, 255, 112], [35, 255, 110],
    [39, 255, 108], [43, 255, 106], [47, 255, 104], [51, 255, 102], [55, 255, 100], [59, 255, 98],
    [63, 255, 96], [67, 255, 94], [71, 255, 92], [75, 255, 90], [79, 255, 88], [83, 255, 86],
    [87, 255, 84], [91, 255, 82], [95, 255, 80], [99, 255, 78], [103, 255, 76], [107, 255, 74],
    [111, 255, 72], [115, 255, 70], [119, 255, 68], [123, 255, 66], [127, 255, 64], [131, 255, 62],
    [135, 255, 60], [139, 255, 58], [143, 255, 56], [147, 255, 54], [151, 255, 52], [155, 255, 50],
    [159, 255, 48], [163, 255, 46], [167, 255, 44], [171, 255, 42], [175, 255, 40], [179, 255, 38],
    [183, 255, 36], [187, 255, 34], [191, 255, 32], [195, 255, 30], [199, 255, 28], [203, 255, 26],
    [207, 255, 24], [211, 255, 22], [215, 255, 20], [219, 255, 18], [223, 255, 16], [227, 255, 14],
    [231, 255, 12], [235, 255, 10], [239, 255, 8], [243, 255, 6], [247, 255, 4], [251, 255, 2],
    [255, 255, 0], [255, 250, 0], [255, 246, 0], [255, 242, 0], [255, 238, 0], [255, 234, 0],
    [255, 230, 0], [255, 226, 0], [255, 222, 0], [255, 218, 0], [255, 214, 0], [255, 210, 0],
    [255, 206, 0], [255, 202, 0], [255, 198, 0], [255, 194, 0], [255, 190, 0], [255, 186, 0],
    [255, 182, 0], [255, 178, 0], [255, 174, 0], [255, 170, 0], [255, 165, 0], [255, 161, 0],
    [255, 157, 0], [255, 153, 0], [255, 149, 0], [255, 145, 0], [255, 141, 0], [255, 137, 0],
    [255, 133, 0], [255, 129, 0], [255, 125, 0], [255, 121, 0], [255, 117, 0], [255, 113, 0],
    [255, 109, 0], [255, 105, 0], [255, 101, 0], [255, 97, 0], [255, 93, 0], [255, 89, 0],
    [255, 85, 0], [255, 80, 0], [255, 76, 0], [255, 72, 0], [255, 68, 0], [255, 64, 0],
    [255, 60, 0], [255, 56, 0], [255, 52, 0], [255, 48, 0], [255, 44, 0], [255, 40, 0],
    [255, 36, 0], [255, 32, 0], [255, 28, 0], [255, 24, 0], [255, 20, 0], [255, 16, 0],
    [255, 12, 0], [255, 8, 0], [255, 4, 0], [255, 0, 0]]"
  by (simp add: COLORMAP_LUT_def generate_colormap_lut_def COLOR_STOPS_def set_column_slice_eq
     linspace_evals upt_0_numeral Let_def replicate_Cons_numeral del: upt_rec_numeral)

lemma nonempty_case_Inr:
  "(case x of Inr t \<Rightarrow> t | Inl e \<Rightarrow> []) \<noteq> [] \<Longrightarrow>
   x = Inr (case x of Inr t \<Rightarrow> t | Inl e \<Rightarrow> [])"
  by (cases x) simp_all

lemma generate_colormap_lut_succeeds: "generate_colormap_lut = Inr COLORMAP_LUT"
proof -
  have "COLORMAP_LUT \<noteq> []" by (simp add: COLORMAP_LUT_rows)
  then show ?thesis
    unfolding COLORMAP_LUT_def by (rule nonempty_case_Inr)
qed

lemma length_COLORMAP_LUT: "length COLORMAP_LUT = 256"
  by (simp add: COLORMAP_LUT_rows)

section \<open>Properties\<close>

text \<open>
  C5. The table built from the five compiled-in stops starts with dark blue and ends with
  red: row 0 is \<open>(0, 0, 128)\<close>, the colour of the first stop, and row 255 is
  \<open>(255, 0, 0)\<close>, the colour of the last stop.
\<close>

theorem lut_boundary_rows:
  "COLORMAP_LUT ! 0 = [0, 0, 128] \<and> COLORMAP_LUT ! 255 = [255, 0, 0]
   \<and> hd COLOR_STOPS = (0, (0, 0, 128)) \<and> last COLOR_STOPS = (255, (255, 0, 0))
   \<and> length COLOR_STOPS = 5"
  by (simp add: COLORMAP_LUT_rows COLOR_STOPS_def)

end
